theory Spec2Isabelle
  imports Main
begin

section \<open>Values, errors and the environment of a run\<close>

text \<open>
  The script \<^verbatim>\<open>scripts/generate_test_matrix.py\<close> works on dynamically typed values:
  \<^verbatim>\<open>None\<close>, strings, lists and dictionaries (the parsed matcher output, the rule
  configuration, the example entries). They are modelled by one datatype; a dictionary
  is an association list in insertion order, which is also the order in which Python
  iterates it. A Python \<^verbatim>\<open>str\<close> is a \<open>string\<close>, its characters restricted to the
  code points below 256.
\<close>

datatype pyval =
    PNone
  | PBool bool
  | PInt int
  | PStr string
  | PList "pyval list"
  | PDict "(string \<times> pyval) list"

text \<open>
  Every way the script can stop early: \<^verbatim>\<open>sys.exit(n)\<close> and the exceptions raised by
  the library calls it makes. None of them is caught anywhere in the script.
\<close>

datatype error =
    SysExit int
  | FileNotFoundError
  | IsADirectoryError
  | NotADirectoryError
  | JSONDecodeError
  | KeyError string
  | TypeError
  | ValueError

datatype node = File string | Dir

text \<open>
  What the script observes of the outside world. \<open>fs\<close> maps a path to what is there,
  \<open>listdir\<close> is \<^verbatim>\<open>os.listdir\<close>, \<open>semgrep\<close> is the external matcher run on a rule
  configuration and a code path, giving return code, standard output and standard
  error, \<open>json_loads\<close> is \<^verbatim>\<open>json.loads\<close>, \<open>json_dumps\<close> is the call
  \<^verbatim>\<open>json.dumps(cheatsheet, indent=4, separators=(",", ": "))\<close> of \<^verbatim>\<open>main\<close>, and
  \<open>relpath\<close> is \<^verbatim>\<open>os.path.relpath\<close>, which depends on the working directory. The
  serialisation of the rule configuration into the temporary file read by the matcher
  is not modelled: the matcher is given the configuration itself.
\<close>

type_synonym entry = "(string \<times> pyval) list"

type_synonym doc = "(string \<times> (string \<times> (string \<times> entry list) list) list) list"

record env =
  fs :: "string \<Rightarrow> node option"
  listdir :: "string \<Rightarrow> error + string list"
  semgrep :: "pyval \<Rightarrow> string \<Rightarrow> int \<times> string \<times> string"
  json_loads :: "string \<Rightarrow> error + pyval"
  json_dumps :: "doc \<Rightarrow> string"
  relpath :: "string \<Rightarrow> string \<Rightarrow> string"

definition path_exists :: "env \<Rightarrow> string \<Rightarrow> bool" where
  "path_exists E p = (fs E p \<noteq> None)"

definition isdir :: "env \<Rightarrow> string \<Rightarrow> bool" where
  "isdir E p = (fs E p = Some Dir)"

text \<open>\<^verbatim>\<open>open(path).read()\<close>: the text of a regular file, an exception otherwise.\<close>

definition open_read :: "env \<Rightarrow> string \<Rightarrow> error + string" where
  "open_read E p =
     (case fs E p of
        Some (File t) \<Rightarrow> Inr t
      | Some Dir \<Rightarrow> Inl IsADirectoryError
      | None \<Rightarrow> Inl FileNotFoundError)"

section \<open>The path resolver: \<^verbatim>\<open>find_path\<close>\<close>

text \<open>
  \<^verbatim>\<open>os.path.join\<close> on POSIX: a component that starts with the separator replaces what
  came before; otherwise it is appended, with a separator unless the path so far is
  empty or already ends with one.
\<close>

definition join2 :: "string \<Rightarrow> string \<Rightarrow> string" where
  "join2 path b =
     (if b \<noteq> [] \<and> hd b = CHR ''/'' then b
      else if path = [] \<or> last path = CHR ''/'' then path @ b
      else path @ ''/'' @ b)"

definition os_path_join :: "string \<Rightarrow> string list \<Rightarrow> string" where
  "os_path_join a ps = foldl join2 a ps"

definition find_path :: "env \<Rightarrow> string \<Rightarrow> string \<Rightarrow> string \<Rightarrow> string \<Rightarrow> string \<Rightarrow> string" where
  "find_path E root_dir lang category subcategory extension =
     (let base_path = os_path_join root_dir [lang, category @ ''_'' @ subcategory];
          joined = base_path @ ''.'' @ extension
      in if path_exists E joined then joined
         else
           (let generic_base_path =
                  os_path_join root_dir [''POLYGLOT'', category @ ''_'' @ subcategory];
                joined = generic_base_path @ ''.'' @ extension
            in joined))"

definition lang_dir_to_ext :: "string \<Rightarrow> string" where
  "lang_dir_to_ext lang =
     (case map_of [(''python'', ''py''), (''ruby'', ''rb'')] lang of
        Some e \<Rightarrow> e
      | None \<Rightarrow> lang)"

section \<open>The lookup tables\<close>

definition FEATURES :: "string list" where
  "FEATURES = [''dots'', ''equivalence'', ''metavar'', ''misc'']"

definition VERBOSE_REGEXP_SYNTAX :: string where
  \<open>VERBOSE_REGEXP_SYNTAX = ''OCaml Syntax: "=~/<regexp>/"''\<close>

definition VERBOSE_FEATURE_NAME :: "(string \<times> string) list" where
  "VERBOSE_FEATURE_NAME =
     [(''dots'', ''Wildcard Matches (...)''),
      (''equivalence'', ''Helpful Features''),
      (''metavar'', ''Named Placeholders ($X)''),
      (''misc'', ''Others''),
      (''metavar_equality'', ''Reoccurring Expressions''),
      (''concrete'', ''Exact Matches''),
      (''regexp'', ''Regular Expressions''),
      (''deep'', ''Deep (Recursive) Matching'')]"

definition VERBOSE_SUBCATEGORY_NAME :: "(string \<times> string) list" where
  "VERBOSE_SUBCATEGORY_NAME =
     [(''stmt'', ''Statement''),
      (''stmts'', ''Statements''),
      (''call'', ''Function Call''),
      (''eq'', ''Equality Constraints''),
      (''nested_stmts'', ''Nested Statements''),
      (''cond'', ''Conditionals''),
      (''arg'', ''Argument''),
      (''args'', ''Arguments''),
      (''import'', ''Imports''),
      (''string'', ''Strings''),
      (''expr'', ''Expressions''),
      (''var'', ''Variables''),
      (''naming_import'', ''Import Renaming/Aliasing''),
      (''constant_propagation'', ''Constant Propagation''),
      (''fieldname'', ''Field Names''),
      (''syntax'', ''Single Statements''),
      (''exprstmt'', ''Expression and Statement'')]"

definition LANGUAGE_EXCEPTIONS :: "(string \<times> string list) list" where
  "LANGUAGE_EXCEPTIONS =
     [(''java'', [''naming_import'']),
      (''c'', [''naming_import'']),
      (''ruby'', [''naming_import'', ''typed'']),
      (''python'', [''typed'']),
      (''js'', [''typed''])]"

definition EXCLUDE :: "string list" where
  "EXCLUDE = [''TODO'', ''POLYGLOT'', ''e2e'', ''OTHER'']"

definition CHEATSHEET_ENTRIES :: "(string \<times> string list) list" where
  "CHEATSHEET_ENTRIES =
     [(''concrete'', [''syntax'']),
      (''dots'', [''args'', ''string'', ''stmts'', ''nested_stmts'']),
      (''metavar'', [''call'', ''arg'', ''stmt'', ''cond'', ''import'', ''typed'']),
      (''regexp'', [''string'']),
      (''metavar_equality'', [''expr'', ''stmt'', ''var'']),
      (''equivalence'', [''naming_import'', ''constant_propagation''])]"

text \<open>\<^verbatim>\<open>d.get(k, default)\<close> on a dictionary.\<close>

definition dict_get :: "('k \<times> 'v) list \<Rightarrow> 'k \<Rightarrow> 'v \<Rightarrow> 'v" where
  "dict_get d k dflt = (case map_of d k of Some v \<Rightarrow> v | None \<Rightarrow> dflt)"

section \<open>The matcher adapter\<close>

text \<open>
  \<^verbatim>\<open>str.strip()\<close> removes the characters for which \<^verbatim>\<open>str.isspace\<close> holds from both
  ends; below code point 256 these are 9 to 13, 28 to 32, 133 and 160.
\<close>

definition py_isspace :: "char \<Rightarrow> bool" where
  "py_isspace c =
     (let n = (of_char c :: nat)
      in (9 \<le> n \<and> n \<le> 13) \<or> (28 \<le> n \<and> n \<le> 32) \<or> n = 133 \<or> n = 160)"

definition strip :: "string \<Rightarrow> string" where
  "strip s = rev (dropWhile py_isspace (rev (dropWhile py_isspace s)))"

text \<open>\<^verbatim>\<open>s.split("\n")\<close>: the pieces between the newlines, one more than there are newlines.\<close>

fun split_newline :: "string \<Rightarrow> string list" where
  "split_newline [] = [[]]"
| "split_newline (c # cs) =
     (if c = CHR 0x0A then [] # split_newline cs
      else (case split_newline cs of
              [] \<Rightarrow> [[c]]
            | piece # pieces \<Rightarrow> (c # piece) # pieces))"

text \<open>
  \<^verbatim>\<open>_single_pattern_to_dict\<close>. \<open>sgrep_config_default\<close> is the dictionary literal of
  that name; the last statement of the function stores \<^verbatim>\<open>pattern\<close> once more where
  the literal already put it.
\<close>

definition sgrep_config_default :: "string \<Rightarrow> string \<Rightarrow> pyval" where
  "sgrep_config_default pattern language =
     PDict
       [(''rules'',
         PList
           [PDict
              [(''id'', PStr ''default-example''),
               (''patterns'', PList [PDict [(''pattern'', PStr pattern)]]),
               (''message'', PStr ''msg''),
               (''languages'', PList [PStr language]),
               (''severity'', PStr ''WARNING'')]])]"

definition single_pattern_to_dict :: "string \<Rightarrow> string \<Rightarrow> pyval" where
  "single_pattern_to_dict pattern0 language =
     (let pattern1 = strip pattern0;
          pattern2 = (if length (split_newline pattern1) > 1
                      then pattern1 @ [CHR 0x0A] else pattern1)
      in sgrep_config_default pattern2 language)"

text \<open>
  What a run does to the outside world, in order. \<open>Run_semgrep\<close> stands for one
  subprocess call of the matcher together with the diagnostic lines printed around it;
  \<open>Open_output\<close> is the opening of the \<^verbatim>\<open>--output-file\<close> by the argument parser
  (\<^verbatim>\<open>argparse.FileType("w")\<close>); \<open>Write_output\<close> and \<open>Print_output\<close> are the two ways
  \<^verbatim>\<open>main\<close> delivers the document.
\<close>

datatype event =
    Run_semgrep pyval string
  | Open_output string
  | Write_output string string
  | Print_output string

type_synonym 'a run = "(error + 'a) \<times> event list"

text \<open>Sequencing: an error ends the computation, the events so far are kept.\<close>

definition bind_err :: "error + 'a \<Rightarrow> ('a \<Rightarrow> error + 'b) \<Rightarrow> error + 'b" where
  "bind_err m f = (case m of Inl e \<Rightarrow> Inl e | Inr x \<Rightarrow> f x)"

definition bind_run :: "'a run \<Rightarrow> ('a \<Rightarrow> 'b run) \<Rightarrow> 'b run" where
  "bind_run m f =
     (case m of
        (Inl e, evs) \<Rightarrow> (Inl e, evs)
      | (Inr x, evs) \<Rightarrow> (case f x of (r, evs') \<Rightarrow> (r, evs @ evs')))"

definition run_semgrep_on_example :: "env \<Rightarrow> string \<Rightarrow> string \<Rightarrow> string \<Rightarrow> string run" where
  "run_semgrep_on_example E lang config_arg_str code_path =
     (case open_read E config_arg_str of
        Inl e \<Rightarrow> (Inl e, [])
      | Inr pattern_text \<Rightarrow>
          (let config = single_pattern_to_dict pattern_text lang
           in case semgrep E config code_path of
                (returncode, out, err) \<Rightarrow>
                  (if returncode = 0 then Inr out else Inl (SysExit 1),
                   [Run_semgrep config code_path])))"

section \<open>The aggregator: \<^verbatim>\<open>generate_cheatsheet\<close>\<close>

text \<open>\<^verbatim>\<open>v[k]\<close> with a string key, and iteration over a value.\<close>

definition getitem :: "pyval \<Rightarrow> string \<Rightarrow> error + pyval" where
  "getitem v k =
     (case v of
        PDict kvs \<Rightarrow> (case map_of kvs k of None \<Rightarrow> Inl (KeyError k) | Some x \<Rightarrow> Inr x)
      | _ \<Rightarrow> Inl TypeError)"

definition py_iter :: "pyval \<Rightarrow> error + pyval list" where
  "py_iter v =
     (case v of
        PList xs \<Rightarrow> Inr xs
      | PDict kvs \<Rightarrow> Inr (map (\<lambda>kv. PStr (fst kv)) kvs)
      | PStr s \<Rightarrow> Inr (map (\<lambda>c. PStr [c]) s)
      | _ \<Rightarrow> Inl TypeError)"

text \<open>The loop \<^verbatim>\<open>for entry in j["results"]: highlights.append(...)\<close>.\<close>

fun collect_highlights :: "pyval list \<Rightarrow> error + pyval list" where
  "collect_highlights [] = Inr []"
| "collect_highlights (entry # entries) =
     bind_err (getitem entry ''start'') (\<lambda>s.
     bind_err (getitem entry ''end'') (\<lambda>e.
     bind_err (collect_highlights entries) (\<lambda>hs.
       Inr (PDict [(''start'', s), (''end'', e)] # hs))))"

definition parse_ranges :: "env \<Rightarrow> string \<Rightarrow> error + pyval list" where
  "parse_ranges E ranges =
     (if ranges \<noteq> [] then
        bind_err (json_loads E ranges) (\<lambda>j.
        bind_err (getitem j ''results'') (\<lambda>results.
        bind_err (py_iter results) collect_highlights))
      else Inr [])"

definition entry_highlights :: "env \<Rightarrow> string \<Rightarrow> string \<Rightarrow> string \<Rightarrow> pyval list run" where
  "entry_highlights E lang sgrep_path code_path =
     (if path_exists E sgrep_path \<and> path_exists E code_path then
        bind_run (run_semgrep_on_example E lang sgrep_path code_path)
          (\<lambda>ranges. (parse_ranges E ranges, []))
      else (Inr [], []))"

definition read_if_exists :: "env \<Rightarrow> string \<Rightarrow> error + pyval" where
  "read_if_exists E path =
     (if path \<noteq> [] \<and> path_exists E path then
        bind_err (open_read E path) (\<lambda>text. Inr (PStr text))
      else Inr PNone)"

definition build_entry :: "env \<Rightarrow> string \<Rightarrow> string \<Rightarrow> string \<Rightarrow> string \<Rightarrow> entry run" where
  "build_entry E root_dir lang category subcategory =
     (let sgrep_path = find_path E root_dir lang category subcategory ''sgrep'';
          code_path = find_path E root_dir lang category subcategory (lang_dir_to_ext lang)
      in bind_run (entry_highlights E lang sgrep_path code_path) (\<lambda>highlights.
           (bind_err (read_if_exists E sgrep_path) (\<lambda>pattern.
            bind_err (read_if_exists E code_path) (\<lambda>code.
              Inr [(''pattern'', pattern),
                   (''pattern_path'', PStr (relpath E sgrep_path root_dir)),
                   (''code'', code),
                   (''code_path'', PStr (relpath E code_path root_dir)),
                   (''highlights'', PList highlights)])),
            [])))"

definition feature_name_of :: "string \<Rightarrow> string" where
  "feature_name_of category = dict_get VERBOSE_FEATURE_NAME category category"

definition subcategory_name_of :: "string \<Rightarrow> string \<Rightarrow> string" where
  "subcategory_name_of category subcategory =
     (if category = ''regexp'' \<and> subcategory = ''string'' then VERBOSE_REGEXP_SYNTAX
      else dict_get VERBOSE_SUBCATEGORY_NAME subcategory subcategory)"

definition language_exception :: "string \<Rightarrow> string \<Rightarrow> string \<Rightarrow> bool" where
  "language_exception lang category subcategory =
     (feature_name_of category \<in> set (dict_get LANGUAGE_EXCEPTIONS lang [])
      \<or> subcategory \<in> set (dict_get LANGUAGE_EXCEPTIONS lang []))"

text \<open>
  \<^verbatim>\<open>d[k]\<close> on a \<^verbatim>\<open>defaultdict\<close> followed by a change of the value found: a missing key
  is first inserted, at the end, with the default.
\<close>

fun dict_modify :: "'k \<Rightarrow> 'v \<Rightarrow> ('v \<Rightarrow> 'v) \<Rightarrow> ('k \<times> 'v) list \<Rightarrow> ('k \<times> 'v) list" where
  "dict_modify k dflt f [] = [(k, f dflt)]"
| "dict_modify k dflt f ((k', v) # kvs) =
     (if k' = k then (k', f v) # kvs else (k', v) # dict_modify k dflt f kvs)"

text \<open>\<^verbatim>\<open>output[lang][feature_name][subcategory_name].append(entry)\<close>.\<close>

definition append_entry :: "doc \<Rightarrow> string \<Rightarrow> string \<Rightarrow> string \<Rightarrow> entry \<Rightarrow> doc" where
  "append_entry output lang feature_name subcategory_name entry =
     dict_modify lang []
       (dict_modify feature_name [] (dict_modify subcategory_name [] (\<lambda>es. es @ [entry])))
       output"

text \<open>The body of the innermost loop, then the three loops.\<close>

definition cheatsheet_step :: "env \<Rightarrow> string \<Rightarrow> string \<Rightarrow> string \<Rightarrow> string \<Rightarrow> doc \<Rightarrow> doc run" where
  "cheatsheet_step E root_dir lang category subcategory output =
     bind_run (build_entry E root_dir lang category subcategory) (\<lambda>entry.
       (Inr (if \<not> language_exception lang category subcategory
             then append_entry output lang (feature_name_of category)
                    (subcategory_name_of category subcategory) entry
             else output),
        []))"

fun loop_subcategories :: "env \<Rightarrow> string \<Rightarrow> string \<Rightarrow> string \<Rightarrow> string list \<Rightarrow> doc \<Rightarrow> doc run" where
  "loop_subcategories E root_dir lang category [] output = (Inr output, [])"
| "loop_subcategories E root_dir lang category (subcategory # subcategories) output =
     bind_run (cheatsheet_step E root_dir lang category subcategory output)
       (loop_subcategories E root_dir lang category subcategories)"

fun loop_categories :: "env \<Rightarrow> string \<Rightarrow> string \<Rightarrow> (string \<times> string list) list \<Rightarrow> doc \<Rightarrow> doc run" where
  "loop_categories E root_dir lang [] output = (Inr output, [])"
| "loop_categories E root_dir lang ((category, subcategories) # rest) output =
     bind_run (loop_subcategories E root_dir lang category subcategories output)
       (loop_categories E root_dir lang rest)"

fun loop_langs :: "env \<Rightarrow> string \<Rightarrow> string list \<Rightarrow> doc \<Rightarrow> doc run" where
  "loop_langs E root_dir [] output = (Inr output, [])"
| "loop_langs E root_dir (lang # langs) output =
     bind_run (loop_categories E root_dir lang CHEATSHEET_ENTRIES output)
       (loop_langs E root_dir langs)"

definition get_language_directories :: "env \<Rightarrow> string \<Rightarrow> error + string list" where
  "get_language_directories E dir_name =
     bind_err (listdir E dir_name) (\<lambda>files.
       Inr (filter (\<lambda>f. isdir E (os_path_join dir_name [f]) \<and> \<not> f \<in> set EXCLUDE) files))"

definition generate_cheatsheet :: "env \<Rightarrow> string \<Rightarrow> doc run" where
  "generate_cheatsheet E root_dir =
     bind_run (get_language_directories E root_dir, [])
       (\<lambda>langs. loop_langs E root_dir langs [])"


section \<open>The HTML renderer\<close>


text \<open>
  An f-string field holding \<^verbatim>\<open>None\<close> prints as \<^verbatim>\<open>None\<close>; a value is true in a
  condition when it is a non-empty string.
\<close>

definition fmt :: "string option \<Rightarrow> string" where
  "fmt v = (case v of None \<Rightarrow> ''None'' | Some s \<Rightarrow> s)"

definition truthy :: "string option \<Rightarrow> bool" where
  "truthy v = (case v of None \<Rightarrow> False | Some s \<Rightarrow> s \<noteq> [])"

text \<open>
  \<^verbatim>\<open>snippet_and_pattern_to_html\<close>. The pattern and the snippets are strings or
  \<^verbatim>\<open>None\<close>. In the branch without an example the function returns the placeholder
  alone, dropping the pattern block built so far; the statement after the
  \<^verbatim>\<open>return ""\<close> of the last branch is never reached.
\<close>

definition snippet_and_pattern_to_html ::
    "string option \<Rightarrow> string \<Rightarrow> (string option \<times> string) list \<Rightarrow> string" where
  \<open>snippet_and_pattern_to_html sgrep_pattern sgrep_path code_snippets =
     (let s = [] in
      if truthy sgrep_pattern then
        (let s = s @ ''<div class="pattern"><a href="'' @ sgrep_path @ ''"><pre>''
                   @ fmt sgrep_pattern @ ''</pre></a></div>''
         in if length (filter (\<lambda>x. truthy (fst x)) code_snippets) \<noteq> 0 then
              (let snippets_html =
                     concat (map (\<lambda>(snippet, path).
                       ''<div class="match"><a href="'' @ path @ ''"><pre>'' @ fmt snippet
                         @ ''</pre></a></div>'') code_snippets)
               in s @ ''<div>'' @ snippets_html @ ''</div>'')
            else
              ''<div class="notimplemented">This is missing an example!<br/>Or it doesn't work yet for this language!<br/>Edit ''
                @ sgrep_path @ ''</div>'')
      else [])\<close>

definition wrap_in_div :: "string list \<Rightarrow> string \<Rightarrow> string" where
  "wrap_in_div L className =
     concat (map (\<lambda>i. ''<div class='' @ className @ ''>'' @ i @ ''</div>'') L)"

text \<open>
  The loop head \<^verbatim>\<open>for (sgrep_pattern, sgrep_path, code_snippet, code_path, _) in entries\<close>
  unpacks each entry into five names. An entry is a dictionary, and unpacking a
  dictionary iterates its keys: the five names receive the keys of the entry, in
  insertion order, and a dictionary with another number of keys raises
  \<^verbatim>\<open>ValueError\<close>.
\<close>

definition unpack_entry :: "entry \<Rightarrow> error + (string \<times> string \<times> string \<times> string)" where
  "unpack_entry en =
     (case map fst en of
        [sgrep_pattern, sgrep_path, code_snippet, code_path, _] \<Rightarrow>
          Inr (sgrep_pattern, sgrep_path, code_snippet, code_path)
      | _ \<Rightarrow> Inl ValueError)"

type_synonym by_pattern =
  "((string option \<times> string) \<times> (string option \<times> string) list) list"

fun group_by_pattern :: "entry list \<Rightarrow> by_pattern \<Rightarrow> error + by_pattern" where
  "group_by_pattern [] by_pattern = Inr by_pattern"
| "group_by_pattern (en # entries) by_pattern =
     bind_err (unpack_entry en) (\<lambda>(sgrep_pattern, sgrep_path, code_snippet, code_path).
       group_by_pattern entries
         (dict_modify (Some sgrep_pattern, sgrep_path) []
            (\<lambda>l. l @ [(Some code_snippet, code_path)]) by_pattern))"

text \<open>One round of the loop over the subcategories of a feature: the example block.\<close>

definition render_subcategory :: "string \<Rightarrow> entry list \<Rightarrow> error + string" where
  \<open>render_subcategory subcategory entries =
     bind_err (group_by_pattern entries []) (\<lambda>by_pattern.
       (let compiled_examples =
              map (\<lambda>((pattern, pattern_path), snippets).
                     snippet_and_pattern_to_html pattern pattern_path snippets) by_pattern;
            html = wrap_in_div compiled_examples ''pair''
        in Inr (''<div class="example"><h3>'' @ subcategory @ ''</h3>'' @ html @ ''</div>'')))\<close>





section \<open>The command line: \<^verbatim>\<open>main\<close>\<close>





section \<open>Coverage tiers: \<^verbatim>\<open>get_emoji\<close>\<close>





section \<open>Notions used to state the properties\<close>

text \<open>
  The entries stored under a language, a feature name and a subcategory name; the
  triples the three nested loops of \<^verbatim>\<open>generate_cheatsheet\<close> go through, in order, and
  the same loops run over such a list of triples.
\<close>

definition doc_lookup :: "doc \<Rightarrow> string \<Rightarrow> string \<Rightarrow> string \<Rightarrow> entry list option" where
  "doc_lookup d lang feature_name subcategory_name =
     (case map_of d lang of
        None \<Rightarrow> None
      | Some features \<Rightarrow>
          (case map_of features feature_name of
             None \<Rightarrow> None
           | Some subs \<Rightarrow> map_of subs subcategory_name))"

definition work_items :: "string list \<Rightarrow> (string \<times> string \<times> string) list" where
  "work_items langs =
     concat (map (\<lambda>lang.
       concat (map (\<lambda>(category, subcategories).
         map (\<lambda>subcategory. (lang, category, subcategory)) subcategories)
         CHEATSHEET_ENTRIES)) langs)"

fun run_items :: "env \<Rightarrow> string \<Rightarrow> (string \<times> string \<times> string) list \<Rightarrow> doc \<Rightarrow> doc run" where
  "run_items E root_dir [] output = (Inr output, [])"
| "run_items E root_dir ((lang, category, subcategory) # items) output =
     bind_run (cheatsheet_step E root_dir lang category subcategory output)
       (run_items E root_dir items)"

definition the_entry :: "env \<Rightarrow> string \<Rightarrow> string \<times> string \<times> string \<Rightarrow> entry" where
  "the_entry E root_dir item =
     (case item of (lang, category, subcategory) \<Rightarrow>
        (case fst (build_entry E root_dir lang category subcategory) of
           Inr en \<Rightarrow> en
         | Inl _ \<Rightarrow> []))"

definition kept_at ::
    "string \<Rightarrow> string \<Rightarrow> string \<Rightarrow> (string \<times> string \<times> string) list \<Rightarrow> (string \<times> string \<times> string) list" where
  "kept_at l f s items =
     filter (\<lambda>(lang, category, subcategory).
        \<not> language_exception lang category subcategory \<and> lang = l \<and>
        feature_name_of category = f \<and> subcategory_name_of category subcategory = s) items"

definition enumerated_pairs :: "(string \<times> string) list" where
  "enumerated_pairs =
     concat (map (\<lambda>(category, subcategories). map (Pair category) subcategories)
       CHEATSHEET_ENTRIES)"

text \<open>
  A trace of matcher invocations that all exited with status 0, and what holds of every
  computation of the script: either its whole trace is of that kind, or it ended in
  \<^verbatim>\<open>sys.exit(1)\<close> right after the one invocation that did not.
\<close>

definition good :: "env \<Rightarrow> event list \<Rightarrow> bool" where
  "good E evs =
     list_all (\<lambda>ev. case ev of Run_semgrep cfg p \<Rightarrow> fst (semgrep E cfg p) = 0 | _ \<Rightarrow> False) evs"


section \<open>An example directory\<close>

text \<open>
  A small directory of examples on which the properties below are exercised: two
  language directories and the fallback directory, one pattern file and one code file
  for Python. The matcher's answer is a parameter; \<open>demo_output\<close> is an answer with
  one match and \<open>demo_json\<close> is what \<^verbatim>\<open>json.loads\<close> makes of it.
\<close>

definition demo_output :: string where
  \<open>demo_output =
     ''{"results": [{"start": {"line": 1, "col": 1}, "end": {"line": 1, "col": 5}}]}''\<close>

definition demo_json :: pyval where
  "demo_json =
     PDict [(''results'',
       PList [PDict [(''start'', PDict [(''line'', PInt 1), (''col'', PInt 1)]),
                     (''end'', PDict [(''line'', PInt 1), (''col'', PInt 5)])]])]"

definition demo_env :: "int \<times> string \<times> string \<Rightarrow> env" where
  "demo_env matcher_result =
     \<lparr> fs = map_of
         [(''examples/python'', Dir),
          (''examples/ruby'', Dir),
          (''examples/POLYGLOT'', Dir),
          (''examples/python/dots_args.sgrep'', File ''foo(...)''),
          (''examples/python/dots_args.py'', File ''foo(1, 2)'')],
       listdir = (\<lambda>d. if d = ''examples'' then Inr [''python'', ''ruby'', ''POLYGLOT'']
                       else Inl FileNotFoundError),
       semgrep = (\<lambda>config code_path. matcher_result),
       json_loads = (\<lambda>s. if s = demo_output then Inr demo_json else Inl JSONDecodeError),
       json_dumps = (\<lambda>d. ''{}''),
       relpath = (\<lambda>path start. drop (Suc (length start)) path) \<rparr>"

text \<open>An entry as \<^verbatim>\<open>generate_cheatsheet\<close> builds it for the Python example.\<close>

definition demo_entry :: "string \<Rightarrow> string \<Rightarrow> entry" where
  "demo_entry pattern code =
     [(''pattern'', PStr pattern),
      (''pattern_path'', PStr ''python/dots_args.sgrep''),
      (''code'', PStr code),
      (''code_path'', PStr ''python/dots_args.py''),
      (''highlights'', PList [])]"


section \<open>Properties\<close>

subsection \<open>Sequencing and the loops\<close>

lemma bind_run_Inr [simp]:
  "bind_run (Inr x, evs) f = (fst (f x), evs @ snd (f x))"
  by (simp add: bind_run_def split: prod.splits)

lemma bind_run_Inl [simp]: "bind_run (Inl e, evs) f = (Inl e, evs)"
  by (simp add: bind_run_def)

lemma bind_run_unit [simp]: "bind_run m (\<lambda>x. (Inr x, [])) = m"
  by (cases m; cases "fst m") (auto simp: bind_run_def)

lemma bind_run_assoc:
  "bind_run (bind_run m f) g = bind_run m (\<lambda>x. bind_run (f x) g)"
proof (cases m)
  case (Pair r evs)
  show ?thesis
  proof (cases r)
    case (Inl e)
    with Pair show ?thesis by simp
  next
    case (Inr x)
    with Pair show ?thesis
      by (cases "f x"; cases "fst (f x)") auto
  qed
qed

lemma run_items_append:
  "run_items E root_dir (xs @ ys) =
     (\<lambda>out. bind_run (run_items E root_dir xs out) (run_items E root_dir ys))"
proof (induction xs)
  case Nil
  show ?case by (rule ext) simp
next
  case (Cons item xs)
  obtain l c s where item: "item = (l, c, s)" by (cases item)
  show ?case
    by (rule ext) (simp add: item bind_run_assoc Cons.IH)
qed

lemma loop_subcategories_items:
  "loop_subcategories E root_dir lang category subs =
     run_items E root_dir (map (\<lambda>subcategory. (lang, category, subcategory)) subs)"
proof (induction subs)
  case Nil
  show ?case by (rule ext) simp
next
  case (Cons a subs)
  show ?case by (rule ext) (simp add: Cons.IH)
qed

lemma loop_categories_items:
  "loop_categories E root_dir lang cats =
     run_items E root_dir
       (concat (map (\<lambda>(category, subcategories).
          map (\<lambda>subcategory. (lang, category, subcategory)) subcategories) cats))"
proof (induction cats)
  case Nil
  show ?case by (rule ext) simp
next
  case (Cons a cats)
  obtain c subs where a: "a = (c, subs)" by (cases a)
  show ?case
    by (rule ext) (simp add: a run_items_append loop_subcategories_items Cons.IH)
qed

lemma loop_langs_items:
  "loop_langs E root_dir langs = run_items E root_dir (work_items langs)"
proof (induction langs)
  case Nil
  show ?case by (rule ext) (simp add: work_items_def)
next
  case (Cons lang langs)
  have "work_items (lang # langs) = work_items [lang] @ work_items langs"
    by (simp add: work_items_def)
  moreover have "loop_categories E root_dir lang CHEATSHEET_ENTRIES =
      run_items E root_dir (work_items [lang])"
    by (simp add: loop_categories_items work_items_def)
  ultimately show ?case
    by (intro ext) (simp add: run_items_append Cons.IH)
qed

lemma map_of_dict_modify:
  "map_of (dict_modify k dflt f kvs) k' =
     (if k' = k then Some (f (case map_of kvs k of None \<Rightarrow> dflt | Some v \<Rightarrow> v))
      else map_of kvs k')"
  by (induction kvs) auto

lemma doc_lookup_append_entry:
  "doc_lookup (append_entry d l f s e) l' f' s' =
     (if l' = l \<and> f' = f \<and> s' = s
      then Some ((case doc_lookup d l f s of None \<Rightarrow> [] | Some es \<Rightarrow> es) @ [e])
      else doc_lookup d l' f' s')"
  by (simp add: doc_lookup_def append_entry_def map_of_dict_modify split: option.splits)

lemma cheatsheet_step_Inr:
  assumes "fst (cheatsheet_step E root_dir l c s out) = Inr out'"
  shows "\<exists>en. fst (build_entry E root_dir l c s) = Inr en \<and>
           out' = (if \<not> language_exception l c s
                   then append_entry out l (feature_name_of c) (subcategory_name_of c s) en
                   else out)"
proof (cases "build_entry E root_dir l c s")
  case (Pair r evs)
  with assms show ?thesis
    by (cases r) (auto simp: cheatsheet_step_def)
qed

lemma run_items_Cons_Inr:
  assumes "fst (run_items E root_dir ((l, c, s) # items) out) = Inr d"
  shows "\<exists>out'. fst (cheatsheet_step E root_dir l c s out) = Inr out' \<and>
           fst (run_items E root_dir items out') = Inr d"
proof (cases "cheatsheet_step E root_dir l c s out")
  case (Pair r evs)
  with assms show ?thesis
    by (cases r) auto
qed

lemma run_items_lookup:
  assumes "fst (run_items E root_dir items out) = Inr d"
  shows "doc_lookup d l f s =
     (case doc_lookup out l f s of
        None \<Rightarrow> (if kept_at l f s items = [] then None
                  else Some (map (the_entry E root_dir) (kept_at l f s items)))
      | Some es \<Rightarrow> Some (es @ map (the_entry E root_dir) (kept_at l f s items)))"
  using assms
proof (induction items arbitrary: out)
  case Nil
  then show ?case by (simp add: kept_at_def split: option.splits)
next
  case (Cons item items)
  obtain l' c' s' where item: "item = (l', c', s')" by (cases item)
  from Cons.prems obtain out' where
    step: "fst (cheatsheet_step E root_dir l' c' s' out) = Inr out'" and
    rest: "fst (run_items E root_dir items out') = Inr d"
    using run_items_Cons_Inr item by blast
  from cheatsheet_step_Inr [OF step] obtain en where
    en: "fst (build_entry E root_dir l' c' s') = Inr en" and
    out': "out' = (if \<not> language_exception l' c' s'
                   then append_entry out l' (feature_name_of c') (subcategory_name_of c' s') en
                   else out)"
    by blast
  have the: "the_entry E root_dir (l', c', s') = en"
    by (simp add: the_entry_def en)
  show ?case
    unfolding Cons.IH [OF rest]
    using the by (auto simp: item out' kept_at_def doc_lookup_append_entry split: option.splits)
qed

lemma run_items_all_built:
  assumes "fst (run_items E root_dir items out) = Inr d" "(l, c, s) \<in> set items"
  shows "\<exists>en. fst (build_entry E root_dir l c s) = Inr en"
  using assms
proof (induction items arbitrary: out)
  case Nil
  then show ?case by simp
next
  case (Cons item items)
  obtain l' c' s' where item: "item = (l', c', s')" by (cases item)
  from Cons.prems obtain out' where
    step: "fst (cheatsheet_step E root_dir l' c' s' out) = Inr out'" and
    rest: "fst (run_items E root_dir items out') = Inr d"
    using run_items_Cons_Inr item by blast
  show ?case
  proof (cases "(l, c, s) = item")
    case True
    with cheatsheet_step_Inr [OF step] item show ?thesis by auto
  next
    case False
    with Cons.prems(2) have "(l, c, s) \<in> set items" by simp
    from Cons.IH [OF rest this] show ?thesis .
  qed
qed

lemma enumerated_keys_distinct:
  "distinct (map (\<lambda>(c, s). (feature_name_of c, subcategory_name_of c s)) enumerated_pairs)"
  by code_simp

lemma key_injective:
  assumes "(c, s) \<in> set enumerated_pairs" "(c', s') \<in> set enumerated_pairs"
    and "feature_name_of c' = feature_name_of c"
    and "subcategory_name_of c' s' = subcategory_name_of c s"
  shows "c' = c \<and> s' = s"
proof -
  have "inj_on (\<lambda>(c, s). (feature_name_of c, subcategory_name_of c s)) (set enumerated_pairs)"
    using enumerated_keys_distinct by (simp add: distinct_map)
  from inj_onD [OF this _ assms(2) assms(1)] assms(3,4) show ?thesis by simp
qed

lemma work_items_iff:
  "(l, c, s) \<in> set (work_items langs) \<longleftrightarrow> l \<in> set langs \<and> (c, s) \<in> set enumerated_pairs"
proof -
  have "set (work_items langs) = (\<Union>l \<in> set langs. (\<lambda>(c, s). (l, c, s)) ` set enumerated_pairs)"
    unfolding work_items_def enumerated_pairs_def
    by (auto simp: image_iff split_beta)
  then show ?thesis by auto
qed

lemma enumerated_pairs_iff:
  "(c, s) \<in> set enumerated_pairs \<longleftrightarrow> (\<exists>subs. (c, subs) \<in> set CHEATSHEET_ENTRIES \<and> s \<in> set subs)"
  by (auto simp: enumerated_pairs_def)

lemma kept_at_excluded:
  assumes "(c, s) \<in> set enumerated_pairs" "language_exception l c s"
  shows "kept_at l (feature_name_of c) (subcategory_name_of c s) (work_items langs) = []"
proof -
  have "\<not> (\<not> language_exception l' c' s' \<and> l' = l \<and> feature_name_of c' = feature_name_of c \<and>
           subcategory_name_of c' s' = subcategory_name_of c s)"
    if "(l', c', s') \<in> set (work_items langs)" for l' c' s'
  proof
    assume h: "\<not> language_exception l' c' s' \<and> l' = l \<and> feature_name_of c' = feature_name_of c \<and>
           subcategory_name_of c' s' = subcategory_name_of c s"
    from that have "(c', s') \<in> set enumerated_pairs" by (simp add: work_items_iff)
    from key_injective [OF assms(1) this] h have "c' = c \<and> s' = s" by simp
    with h assms(2) show False by auto
  qed
  then show ?thesis
    unfolding kept_at_def filter_empty_conv by fast
qed

lemma generate_cheatsheet_Inr:
  assumes "fst (generate_cheatsheet E root_dir) = Inr d"
  shows "\<exists>langs. get_language_directories E root_dir = Inr langs \<and>
           fst (run_items E root_dir (work_items langs) []) = Inr d"
proof (cases "get_language_directories E root_dir")
  case (Inl e)
  with assms show ?thesis by (simp add: generate_cheatsheet_def)
next
  case (Inr langs)
  with assms show ?thesis by (simp add: generate_cheatsheet_def loop_langs_items)
qed

lemma doc_lookup_empty [simp]: "doc_lookup [] l f s = None"
  by (simp add: doc_lookup_def)

lemma generate_cheatsheet_lookup:
  assumes "fst (generate_cheatsheet E root_dir) = Inr d"
  shows "\<exists>langs. get_language_directories E root_dir = Inr langs \<and>
           doc_lookup d l f s =
             (if kept_at l f s (work_items langs) = [] then None
              else Some (map (the_entry E root_dir) (kept_at l f s (work_items langs))))"
proof -
  from generate_cheatsheet_Inr [OF assms] obtain langs where
    langs: "get_language_directories E root_dir = Inr langs" and
    run: "fst (run_items E root_dir (work_items langs) []) = Inr d"
    by blast
  from run_items_lookup [OF run, of l f s] langs show ?thesis by simp
qed

lemma kept_at_append:
  "kept_at l f s (xs @ ys) = kept_at l f s xs @ kept_at l f s ys"
  by (simp add: kept_at_def)

lemma work_items_Cons:
  "work_items (lang # langs) = work_items [lang] @ work_items langs"
  by (simp add: work_items_def)

lemma kept_at_other_langs:
  assumes "l \<notin> set langs"
  shows "kept_at l f s (work_items langs) = []"
  using assms unfolding kept_at_def filter_empty_conv
  by (auto simp: work_items_def)

lemma kept_at_distinct:
  assumes "distinct langs" "l \<in> set langs"
  shows "kept_at l f s (work_items langs) = kept_at l f s (work_items [l])"
  using assms
proof (induction langs)
  case Nil
  then show ?case by simp
next
  case (Cons lang langs)
  show ?case
  proof (cases "lang = l")
    case True
    with Cons.prems have "l \<notin> set langs" by simp
    then show ?thesis
      using True work_items_Cons [of lang langs]
      by (simp add: kept_at_append kept_at_other_langs)
  next
    case False
    then have "kept_at l f s (work_items [lang]) = []"
      by (intro kept_at_other_langs) simp
    with Cons False work_items_Cons [of lang langs] show ?thesis
      by (simp add: kept_at_append)
  qed
qed

lemma kept_at_python_dots_args:
  "kept_at ''python'' ''Wildcard Matches (...)'' ''Arguments'' (work_items [''python'']) =
     [(''python'', ''dots'', ''args'')]"
  by code_simp

lemma kept_at_python_dots_arg:
  "kept_at ''python'' ''Wildcard Matches (...)'' ''Argument'' (work_items [''python'']) = []"
  by code_simp

subsection \<open>Coverage tiers\<close>





subsection \<open>The path resolver\<close>

text \<open>
  C1: whatever the root, language, category, subcategory and extension, if the
  language-specific file, the join of root, language and
  \<^verbatim>\<open>category_subcategory\<close> followed by a dot and the extension, exists, then
  \<open>find_path\<close> returns that path; otherwise it returns the path of the same name under
  \<^verbatim>\<open>POLYGLOT\<close>, and nothing is asked about the existence of that one.
\<close>

theorem find_path_resolution:
  "(path_exists E (os_path_join root_dir [lang, category @ ''_'' @ subcategory] @ ''.'' @ extension) \<longrightarrow>
      find_path E root_dir lang category subcategory extension =
        os_path_join root_dir [lang, category @ ''_'' @ subcategory] @ ''.'' @ extension) \<and>
   (\<not> path_exists E (os_path_join root_dir [lang, category @ ''_'' @ subcategory] @ ''.'' @ extension) \<longrightarrow>
      find_path E root_dir lang category subcategory extension =
        os_path_join root_dir [''POLYGLOT'', category @ ''_'' @ subcategory] @ ''.'' @ extension)"
  by (simp add: find_path_def Let_def)

text \<open>
  For a root that does not end with a separator, a language name without separators at
  its ends and a category that does not start with one, the joined path is the plain
  concatenation \<^verbatim>\<open>root/language/category_subcategory\<close>.
\<close>

lemma os_path_join_plain:
  assumes "root_dir \<noteq> []" "last root_dir \<noteq> CHR ''/''"
    and "lang \<noteq> []" "hd lang \<noteq> CHR ''/''" "last lang \<noteq> CHR ''/''"
    and "category = [] \<or> hd category \<noteq> CHR ''/''"
  shows "os_path_join root_dir [lang, category @ ''_'' @ subcategory] =
           root_dir @ ''/'' @ lang @ ''/'' @ category @ ''_'' @ subcategory"
  using assms by (auto simp: os_path_join_def join2_def hd_append)

lemma demo_paths:
  "os_path_join ''examples'' [''python'', ''dots'' @ ''_'' @ ''args''] @ ''.'' @ ''py'' = ''examples/python/dots_args.py''"
  "os_path_join ''examples'' [''ruby'', ''dots'' @ ''_'' @ ''args''] @ ''.'' @ ''rb'' = ''examples/ruby/dots_args.rb''"
  "os_path_join ''examples'' [''POLYGLOT'', ''dots'' @ ''_'' @ ''args''] @ ''.'' @ ''rb'' = ''examples/POLYGLOT/dots_args.rb''"
  by (simp_all add: os_path_join_def join2_def)

theorem find_path_resolution_witness:
  "path_exists (demo_env (0, [], [])) ''examples/python/dots_args.py'' \<and>
   find_path (demo_env (0, [], [])) ''examples'' ''python'' ''dots'' ''args'' ''py'' =
     ''examples/python/dots_args.py'' \<and>
   \<not> path_exists (demo_env (0, [], [])) ''examples/ruby/dots_args.rb'' \<and>
   \<not> path_exists (demo_env (0, [], [])) ''examples/POLYGLOT/dots_args.rb'' \<and>
   find_path (demo_env (0, [], [])) ''examples'' ''ruby'' ''dots'' ''args'' ''rb'' =
     ''examples/POLYGLOT/dots_args.rb''"
proof -
  have ex: "path_exists (demo_env (0, [], [])) ''examples/python/dots_args.py''"
    and nex: "\<not> path_exists (demo_env (0, [], [])) ''examples/ruby/dots_args.rb''"
    and nex': "\<not> path_exists (demo_env (0, [], [])) ''examples/POLYGLOT/dots_args.rb''"
    by (simp_all add: path_exists_def demo_env_def)
  from ex nex nex'
    find_path_resolution [of "demo_env (0, [], [])" "''examples''" "''python''" "''dots''" "''args''" "''py''"]
    find_path_resolution [of "demo_env (0, [], [])" "''examples''" "''ruby''" "''dots''" "''args''" "''rb''"]
  show ?thesis
    unfolding demo_paths by simp
qed

subsection \<open>The rule configuration\<close>

text \<open>The number of pieces of a split is one more than the number of newlines.\<close>

lemma length_split_newline: "length (split_newline s) = Suc (count_list s (CHR 0x0A))"
  by (induction s) (auto split: list.splits)

lemma count_list_pos: "0 < count_list s c \<longleftrightarrow> c \<in> set s"
  by (induction s) auto

lemma multiline_iff: "length (split_newline s) > 1 \<longleftrightarrow> CHR 0x0A \<in> set s"
  by (simp add: length_split_newline count_list_pos)

text \<open>
  C9 (as the spec states it, refuted): the raw text of the pattern file would be
  embedded, with a newline appended exactly when it spans several lines. The raw text
  \<^verbatim>\<open>" foo"\<close> is embedded neither as it is nor with a newline added, and the raw text
  made of a newline followed by \<^verbatim>\<open>foo\<close>, which splits into two lines, is embedded
  as \<^verbatim>\<open>foo\<close> without a newline.
\<close>

theorem single_pattern_raw_counterexample:
  "single_pattern_to_dict '' foo'' ''python'' \<noteq> sgrep_config_default '' foo'' ''python'' \<and>
   single_pattern_to_dict '' foo'' ''python'' \<noteq> sgrep_config_default ('' foo'' @ [CHR 0x0A]) ''python'' \<and>
   single_pattern_to_dict ([CHR 0x0A] @ ''foo'') ''python'' = sgrep_config_default ''foo'' ''python'' \<and>
   length (split_newline ([CHR 0x0A] @ ''foo'')) = 2"
  by (simp add: single_pattern_to_dict_def sgrep_config_default_def strip_def py_isspace_def)

text \<open>
  C9 (amended): the pattern embedded in the single rule, scoped to the given language,
  is the raw text with the white space stripped from both ends, followed by a newline
  exactly when the stripped text contains a newline; and the configuration the matcher
  is run on is the one built from the text read from the pattern file.
\<close>

theorem single_pattern_stripped:
  "single_pattern_to_dict raw language =
     sgrep_config_default
       (if CHR 0x0A \<in> set (strip raw) then strip raw @ [CHR 0x0A] else strip raw) language \<and>
   (fs E pattern_file = Some (File raw) \<longrightarrow>
      snd (run_semgrep_on_example E language pattern_file code_path) =
        [Run_semgrep
           (sgrep_config_default
              (if CHR 0x0A \<in> set (strip raw) then strip raw @ [CHR 0x0A] else strip raw) language)
           code_path])"
proof -
  have eq: "single_pattern_to_dict raw language =
     sgrep_config_default
       (if CHR 0x0A \<in> set (strip raw) then strip raw @ [CHR 0x0A] else strip raw) language"
    by (simp add: single_pattern_to_dict_def Let_def length_split_newline count_list_pos)
  have "snd (run_semgrep_on_example E language pattern_file code_path) =
      [Run_semgrep (single_pattern_to_dict raw language) code_path]"
    if "fs E pattern_file = Some (File raw)"
    using that
    by (simp add: run_semgrep_on_example_def open_read_def Let_def split: prod.splits)
  with eq show ?thesis by simp
qed

theorem single_pattern_stripped_witness:
  "fs (demo_env (0, [], [])) ''examples/python/dots_args.sgrep'' = Some (File ''foo(...)'') \<and>
   snd (run_semgrep_on_example (demo_env (0, [], [])) ''python''
          ''examples/python/dots_args.sgrep'' ''examples/python/dots_args.py'') =
     [Run_semgrep (sgrep_config_default ''foo(...)'' ''python'') ''examples/python/dots_args.py''] \<and>
   single_pattern_to_dict (''  if x:'' @ [CHR 0x0A] @ ''    y'' @ [CHR 0x0A]) ''python'' =
     sgrep_config_default (''if x:'' @ [CHR 0x0A] @ ''    y'' @ [CHR 0x0A]) ''python''"
proof -
  have f: "fs (demo_env (0, [], [])) ''examples/python/dots_args.sgrep'' = Some (File ''foo(...)'')"
    by (simp add: demo_env_def)
  have s1: "strip ''foo(...)'' = ''foo(...)''"
    by (simp add: strip_def py_isspace_def)
  have s2: "strip (''  if x:'' @ [CHR 0x0A] @ ''    y'' @ [CHR 0x0A]) = ''if x:'' @ [CHR 0x0A] @ ''    y''"
    by (simp add: strip_def py_isspace_def)
  from f
    single_pattern_stripped [of "''foo(...)''" "''python''" "demo_env (0, [], [])"
      "''examples/python/dots_args.sgrep''" "''examples/python/dots_args.py''"]
    single_pattern_stripped [of "''  if x:'' @ [CHR 0x0A] @ ''    y'' @ [CHR 0x0A]" "''python''"]
  show ?thesis
    unfolding s1 s2 by simp
qed

subsection \<open>The HTML renderer\<close>



text \<open>Unpacking an entry yields its first four keys, whatever the values are.\<close>

lemma unpack_entry_keys:
  "unpack_entry [(k1, v1), (k2, v2), (k3, v3), (k4, v4), (k5, v5)] = Inr (k1, k2, k3, k4)"
  by (simp add: unpack_entry_def)

text \<open>
  C3 (the code at a failing input): \<open>cheatsheet_to_html\<close> unpacks the keys of each
  entry, not its values. Two entries with different patterns and different code are put
  into one group, under the key made of the two words \<^verbatim>\<open>pattern\<close> and
  \<^verbatim>\<open>pattern_path\<close>; and the block rendered for the single Python entry shows the
  word \<^verbatim>\<open>pattern\<close> where the pattern text \<^verbatim>\<open>foo(...)\<close> is expected.
\<close>

theorem html_groups_by_key_names:
  \<open>group_by_pattern [demo_entry ''foo(...)'' ''foo(1, 2)'', demo_entry ''bar($X)'' ''bar(3)''] [] =
     Inr [((Some ''pattern'', ''pattern_path''),
           [(Some ''code'', ''code_path''), (Some ''code'', ''code_path'')])] \<and>
   render_subcategory ''Arguments'' [demo_entry ''foo(...)'' ''foo(1, 2)''] =
     Inr ''<div class="example"><h3>Arguments</h3><div class=pair><div class="pattern"><a href="pattern_path"><pre>pattern</pre></a></div><div><div class="match"><a href="code_path"><pre>code</pre></a></div></div></div></div>''\<close>
  by (simp add: render_subcategory_def demo_entry_def unpack_entry_def bind_err_def
      snippet_and_pattern_to_html_def wrap_in_div_def truthy_def fmt_def)

subsection \<open>Building one entry\<close>

text \<open>Reading a file that may be missing, and the resolved paths of the example directory.\<close>

lemma bind_err_simps [simp]:
  "bind_err (Inl e) f = Inl e" "bind_err (Inr x) f = f x"
  by (simp_all add: bind_err_def)

lemma read_if_exists_missing:
  "\<not> path_exists E p \<Longrightarrow> read_if_exists E p = Inr PNone"
  by (simp add: read_if_exists_def)

lemma read_if_exists_file:
  "fs E p = Some (File t) \<Longrightarrow> p \<noteq> [] \<Longrightarrow> read_if_exists E p = Inr (PStr t)"
  by (simp add: read_if_exists_def path_exists_def open_read_def)

lemma find_path_nonempty: "find_path E root_dir lang category subcategory extension \<noteq> []"
  by (simp add: find_path_def Let_def)

lemma read_if_exists_not_dir:
  "\<not> isdir E p \<Longrightarrow>
     read_if_exists E p = Inr (case fs E p of Some (File t) \<Rightarrow> PStr t | _ \<Rightarrow> PNone) \<or> p = []"
  by (auto simp: read_if_exists_def path_exists_def open_read_def isdir_def
      split: option.splits node.splits)

lemma demo_find_path:
  "find_path (demo_env r) ''examples'' ''ruby'' ''dots'' ''args'' ''sgrep'' =
     ''examples/POLYGLOT/dots_args.sgrep''"
  "find_path (demo_env r) ''examples'' ''ruby'' ''dots'' ''args'' ''rb'' =
     ''examples/POLYGLOT/dots_args.rb''"
  "find_path (demo_env r) ''examples'' ''python'' ''dots'' ''args'' ''sgrep'' =
     ''examples/python/dots_args.sgrep''"
  "find_path (demo_env r) ''examples'' ''python'' ''dots'' ''args'' ''py'' =
     ''examples/python/dots_args.py''"
  by (simp_all add: find_path_def Let_def os_path_join_def join2_def path_exists_def demo_env_def)

lemma demo_ext: "lang_dir_to_ext ''ruby'' = ''rb''" "lang_dir_to_ext ''python'' = ''py''"
  by (simp_all add: lang_dir_to_ext_def)

text \<open>
  C7: for a language, category and subcategory whose resolved pattern file or code file
  does not exist (neither resolved path being a directory), the loop body raises no
  error and runs no matcher: it builds an entry whose highlights are empty and in which
  the text of each missing file is \<^verbatim>\<open>None\<close>, and, unless the pair is excluded for the
  language, appends that entry to the document.
\<close>

theorem missing_asset_entry:
  assumes "\<not> path_exists E (find_path E root_dir lang category subcategory ''sgrep'') \<or>
           \<not> path_exists E (find_path E root_dir lang category subcategory (lang_dir_to_ext lang))"
    and "\<not> isdir E (find_path E root_dir lang category subcategory ''sgrep'')"
    and "\<not> isdir E (find_path E root_dir lang category subcategory (lang_dir_to_ext lang))"
  shows "\<exists>pattern code en.
     en = [(''pattern'', pattern),
           (''pattern_path'',
            PStr (relpath E (find_path E root_dir lang category subcategory ''sgrep'') root_dir)),
           (''code'', code),
           (''code_path'',
            PStr (relpath E (find_path E root_dir lang category subcategory (lang_dir_to_ext lang))
                    root_dir)),
           (''highlights'', PList [])] \<and>
     build_entry E root_dir lang category subcategory = (Inr en, []) \<and>
     (\<not> path_exists E (find_path E root_dir lang category subcategory ''sgrep'')
        \<longrightarrow> pattern = PNone) \<and>
     (\<not> path_exists E (find_path E root_dir lang category subcategory (lang_dir_to_ext lang))
        \<longrightarrow> code = PNone) \<and>
     cheatsheet_step E root_dir lang category subcategory out =
       (Inr (if language_exception lang category subcategory then out
             else append_entry out lang (feature_name_of category)
                    (subcategory_name_of category subcategory) en), [])"
proof -
  let ?sp = "find_path E root_dir lang category subcategory ''sgrep''"
  let ?cp = "find_path E root_dir lang category subcategory (lang_dir_to_ext lang)"
  let ?pattern = "case fs E ?sp of Some (File t) \<Rightarrow> PStr t | _ \<Rightarrow> PNone"
  let ?code = "case fs E ?cp of Some (File t) \<Rightarrow> PStr t | _ \<Rightarrow> PNone"
  have hl: "entry_highlights E lang ?sp ?cp = (Inr [], [])"
    using assms(1) by (auto simp: entry_highlights_def)
  have rp: "read_if_exists E ?sp = Inr ?pattern"
    using read_if_exists_not_dir [OF assms(2)] find_path_nonempty by blast
  have rc: "read_if_exists E ?cp = Inr ?code"
    using read_if_exists_not_dir [OF assms(3)] find_path_nonempty by blast
  let ?en = "[(''pattern'', ?pattern), (''pattern_path'', PStr (relpath E ?sp root_dir)),
              (''code'', ?code), (''code_path'', PStr (relpath E ?cp root_dir)),
              (''highlights'', PList [])]"
  have be: "build_entry E root_dir lang category subcategory = (Inr ?en, [])"
    by (simp add: build_entry_def Let_def hl rp rc)
  have p: "\<not> path_exists E ?sp \<longrightarrow> ?pattern = PNone"
    by (simp add: path_exists_def)
  have c: "\<not> path_exists E ?cp \<longrightarrow> ?code = PNone"
    by (simp add: path_exists_def)
  have st: "cheatsheet_step E root_dir lang category subcategory out =
       (Inr (if language_exception lang category subcategory then out
             else append_entry out lang (feature_name_of category)
                    (subcategory_name_of category subcategory) ?en), [])"
    by (simp add: cheatsheet_step_def be)
  from be p c st show ?thesis by blast
qed

theorem missing_asset_entry_witness:
  "build_entry (demo_env (0, [], [])) ''examples'' ''ruby'' ''dots'' ''args'' =
     (Inr [(''pattern'', PNone),
           (''pattern_path'', PStr ''POLYGLOT/dots_args.sgrep''),
           (''code'', PNone),
           (''code_path'', PStr ''POLYGLOT/dots_args.rb''),
           (''highlights'', PList [])], []) \<and>
   fst (cheatsheet_step (demo_env (0, [], [])) ''examples'' ''ruby'' ''dots'' ''args'' []) =
     Inr [(''ruby'', [(''Wildcard Matches (...)'', [(''Arguments'',
        [[(''pattern'', PNone),
          (''pattern_path'', PStr ''POLYGLOT/dots_args.sgrep''),
          (''code'', PNone),
          (''code_path'', PStr ''POLYGLOT/dots_args.rb''),
          (''highlights'', PList [])]])])])]"
proof -
  let ?D = "demo_env (0, [], [])"
  have h1: "\<not> path_exists ?D (find_path ?D ''examples'' ''ruby'' ''dots'' ''args'' ''sgrep'') \<or>
      \<not> path_exists ?D (find_path ?D ''examples'' ''ruby'' ''dots'' ''args'' (lang_dir_to_ext ''ruby''))"
    unfolding demo_ext demo_find_path by (simp add: path_exists_def demo_env_def)
  have h2: "\<not> isdir ?D (find_path ?D ''examples'' ''ruby'' ''dots'' ''args'' ''sgrep'')"
    unfolding demo_find_path by (simp add: isdir_def demo_env_def)
  have h3: "\<not> isdir ?D (find_path ?D ''examples'' ''ruby'' ''dots'' ''args'' (lang_dir_to_ext ''ruby''))"
    unfolding demo_ext demo_find_path by (simp add: isdir_def demo_env_def)
  have ne: "\<not> path_exists ?D ''examples/POLYGLOT/dots_args.sgrep''"
      "\<not> path_exists ?D ''examples/POLYGLOT/dots_args.rb''"
    by (simp_all add: path_exists_def demo_env_def)
  have rel: "relpath ?D ''examples/POLYGLOT/dots_args.sgrep'' ''examples'' = ''POLYGLOT/dots_args.sgrep''"
      "relpath ?D ''examples/POLYGLOT/dots_args.rb'' ''examples'' = ''POLYGLOT/dots_args.rb''"
    by (simp_all add: demo_env_def)
  have names: "feature_name_of ''dots'' = ''Wildcard Matches (...)''"
      "subcategory_name_of ''dots'' ''args'' = ''Arguments''"
      "\<not> language_exception ''ruby'' ''dots'' ''args''"
    by (simp_all add: feature_name_of_def subcategory_name_of_def language_exception_def
        dict_get_def VERBOSE_FEATURE_NAME_def VERBOSE_SUBCATEGORY_NAME_def LANGUAGE_EXCEPTIONS_def)
  from missing_asset_entry [OF h1 h2 h3, of "[]"] show ?thesis
    unfolding demo_ext demo_find_path rel
    using ne names by (auto simp: append_entry_def)
qed

text \<open>
  C10: when the pattern file and the code file exist and the matcher exits with status
  0 and an empty standard output, the entry is built without error and with an empty
  list of highlights, whatever \<^verbatim>\<open>json.loads\<close> would do: the empty output does not
  reach the parser.
\<close>

theorem empty_output_no_highlights:
  assumes "fs E (find_path E root_dir lang category subcategory ''sgrep'') = Some (File pat)"
    and "fs E (find_path E root_dir lang category subcategory (lang_dir_to_ext lang)) =
           Some (File code)"
    and "semgrep E (single_pattern_to_dict pat lang)
           (find_path E root_dir lang category subcategory (lang_dir_to_ext lang)) = (0, [], err)"
  shows "build_entry (E\<lparr>json_loads := loads\<rparr>) root_dir lang category subcategory =
     (Inr [(''pattern'', PStr pat),
           (''pattern_path'',
            PStr (relpath E (find_path E root_dir lang category subcategory ''sgrep'') root_dir)),
           (''code'', PStr code),
           (''code_path'',
            PStr (relpath E (find_path E root_dir lang category subcategory (lang_dir_to_ext lang))
                    root_dir)),
           (''highlights'', PList [])],
      [Run_semgrep (single_pattern_to_dict pat lang)
         (find_path E root_dir lang category subcategory (lang_dir_to_ext lang))])"
proof -
  let ?E = "E\<lparr>json_loads := loads\<rparr>"
  let ?sp = "find_path E root_dir lang category subcategory ''sgrep''"
  let ?cp = "find_path E root_dir lang category subcategory (lang_dir_to_ext lang)"
  have fp: "find_path ?E root_dir lang category subcategory ext =
      find_path E root_dir lang category subcategory ext" for ext
    by (simp add: find_path_def path_exists_def)
  have run: "run_semgrep_on_example ?E lang ?sp ?cp =
      (Inr [], [Run_semgrep (single_pattern_to_dict pat lang) ?cp])"
    using assms(1,3) by (simp add: run_semgrep_on_example_def open_read_def)
  have hl: "entry_highlights ?E lang ?sp ?cp =
      (Inr [], [Run_semgrep (single_pattern_to_dict pat lang) ?cp])"
    using assms(1,2) by (simp add: entry_highlights_def path_exists_def run parse_ranges_def)
  have rp: "read_if_exists ?E ?sp = Inr (PStr pat)"
    using assms(1) find_path_nonempty by (intro read_if_exists_file) simp_all
  have rc: "read_if_exists ?E ?cp = Inr (PStr code)"
    using assms(2) find_path_nonempty by (intro read_if_exists_file) simp_all
  show ?thesis
    by (simp add: build_entry_def Let_def fp hl rp rc)
qed

theorem empty_output_no_highlights_witness:
  "build_entry (demo_env (0, [], [])\<lparr>json_loads := \<lambda>s. Inl JSONDecodeError\<rparr>)
       ''examples'' ''python'' ''dots'' ''args'' =
     (Inr [(''pattern'', PStr ''foo(...)''),
           (''pattern_path'', PStr ''python/dots_args.sgrep''),
           (''code'', PStr ''foo(1, 2)''),
           (''code_path'', PStr ''python/dots_args.py''),
           (''highlights'', PList [])],
      [Run_semgrep (sgrep_config_default ''foo(...)'' ''python'') ''examples/python/dots_args.py''])"
proof -
  let ?D = "demo_env (0, [], [])"
  have h1: "fs ?D (find_path ?D ''examples'' ''python'' ''dots'' ''args'' ''sgrep'') = Some (File ''foo(...)'')"
    unfolding demo_find_path by (simp add: demo_env_def)
  have h2: "fs ?D (find_path ?D ''examples'' ''python'' ''dots'' ''args'' (lang_dir_to_ext ''python'')) =
      Some (File ''foo(1, 2)'')"
    unfolding demo_ext demo_find_path by (simp add: demo_env_def)
  have h3: "semgrep ?D (single_pattern_to_dict ''foo(...)'' ''python'')
      (find_path ?D ''examples'' ''python'' ''dots'' ''args'' (lang_dir_to_ext ''python'')) = (0, [], [])"
    by (simp add: demo_env_def)
  have cfg: "single_pattern_to_dict ''foo(...)'' ''python'' = sgrep_config_default ''foo(...)'' ''python''"
    by (simp add: single_pattern_to_dict_def strip_def py_isspace_def)
  have rel: "relpath ?D ''examples/python/dots_args.sgrep'' ''examples'' = ''python/dots_args.sgrep''"
      "relpath ?D ''examples/python/dots_args.py'' ''examples'' = ''python/dots_args.py''"
    by (simp_all add: demo_env_def)
  from empty_output_no_highlights [OF h1 h2 h3, of "\<lambda>s. Inl JSONDecodeError"] show ?thesis
    unfolding demo_ext demo_find_path rel cfg by simp
qed

subsection \<open>A failing matcher\<close>

text \<open>The invariant of the trace is kept by sequencing and holds of every loop.\<close>

lemma good_Nil [simp]: "good E []"
  by (simp add: good_def)

lemma good_append [simp]: "good E (xs @ ys) \<longleftrightarrow> good E xs \<and> good E ys"
  by (simp add: good_def)

lemma good_Run [simp]: "good E [Run_semgrep cfg p] \<longleftrightarrow> fst (semgrep E cfg p) = 0"
  by (simp add: good_def)
















subsection \<open>The document of a whole run\<close>

text \<open>The run over the example directory succeeds; its document, looked up by key.\<close>

lemma demo_run_ok: "\<not> isl (fst (generate_cheatsheet (demo_env (0, demo_output, [])) ''examples''))"
  by code_simp

lemma demo_langs:
  "get_language_directories (demo_env r) ''examples'' = Inr [''python'', ''ruby'']"
  by (simp add: get_language_directories_def bind_err_def demo_env_def isdir_def
      os_path_join_def join2_def EXCLUDE_def)

lemma demo_lookup:
  "doc_lookup (projr (fst (generate_cheatsheet (demo_env (0, demo_output, [])) ''examples''))) l f s =
     (if kept_at l f s (work_items [''python'', ''ruby'']) = [] then None
      else Some (map (the_entry (demo_env (0, demo_output, [])) ''examples'')
             (kept_at l f s (work_items [''python'', ''ruby'']))))"
proof -
  have "fst (generate_cheatsheet (demo_env (0, demo_output, [])) ''examples'') =
      Inr (projr (fst (generate_cheatsheet (demo_env (0, demo_output, [])) ''examples'')))"
    using demo_run_ok by simp
  from generate_cheatsheet_lookup [OF this, of l f s] show ?thesis
    by (simp add: demo_langs)
qed

lemma demo_kept:
  "kept_at ''ruby'' ''Helpful Features'' ''Constant Propagation'' (work_items [''python'', ''ruby'']) =
     [(''ruby'', ''equivalence'', ''constant_propagation'')]"
  "kept_at ''python'' ''Helpful Features'' ''Import Renaming/Aliasing'' (work_items [''python'', ''ruby'']) =
     [(''python'', ''equivalence'', ''naming_import'')]"
  "kept_at ''python'' ''Wildcard Matches (...)'' ''Argument'' (work_items [''python'', ''ruby'']) = []"
  "kept_at ''python'' ''Wildcard Matches (...)'' ''Arguments'' (work_items [''python'', ''ruby'']) =
     [(''python'', ''dots'', ''args'')]"
  by code_simp+

text \<open>
  C2: in the document returned by \<open>generate_cheatsheet\<close>, for a category and a
  subcategory of \<open>CHEATSHEET_ENTRIES\<close> such that the exception list of the language
  contains the feature name or the subcategory key, nothing is stored under the
  language, the feature name and the subcategory name of that pair.
\<close>

theorem excluded_never_inserted:
  assumes "fst (generate_cheatsheet E root_dir) = Inr d"
    and "(category, subcategories) \<in> set CHEATSHEET_ENTRIES" "subcategory \<in> set subcategories"
    and "feature_name_of category \<in> set (dict_get LANGUAGE_EXCEPTIONS lang [])
         \<or> subcategory \<in> set (dict_get LANGUAGE_EXCEPTIONS lang [])"
  shows "doc_lookup d lang (feature_name_of category)
           (subcategory_name_of category subcategory) = None"
proof -
  have pair: "(category, subcategory) \<in> set enumerated_pairs"
    using assms(2,3) enumerated_pairs_iff by blast
  have excl: "language_exception lang category subcategory"
    using assms(4) by (simp add: language_exception_def)
  from generate_cheatsheet_lookup [OF assms(1), of lang "feature_name_of category"
      "subcategory_name_of category subcategory"]
  obtain langs where
    "doc_lookup d lang (feature_name_of category) (subcategory_name_of category subcategory) =
       (if kept_at lang (feature_name_of category) (subcategory_name_of category subcategory)
             (work_items langs) = [] then None
        else Some (map (the_entry E root_dir)
          (kept_at lang (feature_name_of category) (subcategory_name_of category subcategory)
             (work_items langs))))"
    by blast
  with kept_at_excluded [OF pair excl, of langs] show ?thesis by simp
qed

theorem excluded_never_inserted_witness:
  "doc_lookup (projr (fst (generate_cheatsheet (demo_env (0, demo_output, [])) ''examples'')))
     ''ruby'' ''Helpful Features'' ''Import Renaming/Aliasing'' = None \<and>
   doc_lookup (projr (fst (generate_cheatsheet (demo_env (0, demo_output, [])) ''examples'')))
     ''ruby'' ''Helpful Features'' ''Constant Propagation'' \<noteq> None \<and>
   doc_lookup (projr (fst (generate_cheatsheet (demo_env (0, demo_output, [])) ''examples'')))
     ''python'' ''Helpful Features'' ''Import Renaming/Aliasing'' \<noteq> None"
proof -
  let ?d = "projr (fst (generate_cheatsheet (demo_env (0, demo_output, [])) ''examples''))"
  have run: "fst (generate_cheatsheet (demo_env (0, demo_output, [])) ''examples'') = Inr ?d"
    using demo_run_ok by simp
  have e: "(''equivalence'', [''naming_import'', ''constant_propagation'']) \<in> set CHEATSHEET_ENTRIES"
    by (simp add: CHEATSHEET_ENTRIES_def)
  have m: "''naming_import'' \<in> set [''naming_import'', ''constant_propagation'']"
    by simp
  have x: "feature_name_of ''equivalence'' \<in> set (dict_get LANGUAGE_EXCEPTIONS ''ruby'' [])
         \<or> ''naming_import'' \<in> set (dict_get LANGUAGE_EXCEPTIONS ''ruby'' [])"
    by (simp add: LANGUAGE_EXCEPTIONS_def dict_get_def)
  have names: "feature_name_of ''equivalence'' = ''Helpful Features''"
      "subcategory_name_of ''equivalence'' ''naming_import'' = ''Import Renaming/Aliasing''"
    by (simp_all add: feature_name_of_def subcategory_name_of_def dict_get_def
        VERBOSE_FEATURE_NAME_def VERBOSE_SUBCATEGORY_NAME_def)
  have others: "doc_lookup ?d ''ruby'' ''Helpful Features'' ''Constant Propagation'' \<noteq> None"
      "doc_lookup ?d ''python'' ''Helpful Features'' ''Import Renaming/Aliasing'' \<noteq> None"
    by (simp_all add: demo_lookup demo_kept)
  from excluded_never_inserted [OF run e m x] others show ?thesis
    unfolding names by simp
qed

text \<open>The entry built when both files exist and the matcher succeeds.\<close>

lemma find_path_existing:
  assumes "fs E (os_path_join root_dir [lang, category @ ''_'' @ subcategory] @ ''.'' @ ext) = Some n"
  shows "find_path E root_dir lang category subcategory ext =
     os_path_join root_dir [lang, category @ ''_'' @ subcategory] @ ''.'' @ ext"
  using assms by (simp add: find_path_def Let_def path_exists_def)

lemma parse_one_match:
  assumes "out \<noteq> []" "json_loads E out = Inr j" "getitem j ''results'' = Inr (PList [m])"
    and "getitem m ''start'' = Inr st" "getitem m ''end'' = Inr en"
  shows "parse_ranges E out = Inr [PDict [(''start'', st), (''end'', en)]]"
  using assms by (simp add: parse_ranges_def py_iter_def)

lemma build_entry_matched:
  assumes "fs E (find_path E root_dir lang category subcategory ''sgrep'') = Some (File pat)"
    and "fs E (find_path E root_dir lang category subcategory (lang_dir_to_ext lang)) =
           Some (File code)"
    and "semgrep E (single_pattern_to_dict pat lang)
           (find_path E root_dir lang category subcategory (lang_dir_to_ext lang)) = (0, out, err)"
    and "parse_ranges E out = Inr hs"
  shows "build_entry E root_dir lang category subcategory =
     (Inr [(''pattern'', PStr pat),
           (''pattern_path'',
            PStr (relpath E (find_path E root_dir lang category subcategory ''sgrep'') root_dir)),
           (''code'', PStr code),
           (''code_path'',
            PStr (relpath E (find_path E root_dir lang category subcategory (lang_dir_to_ext lang))
                    root_dir)),
           (''highlights'', PList hs)],
      [Run_semgrep (single_pattern_to_dict pat lang)
         (find_path E root_dir lang category subcategory (lang_dir_to_ext lang))])"
proof -
  let ?sp = "find_path E root_dir lang category subcategory ''sgrep''"
  let ?cp = "find_path E root_dir lang category subcategory (lang_dir_to_ext lang)"
  have run: "run_semgrep_on_example E lang ?sp ?cp =
      (Inr out, [Run_semgrep (single_pattern_to_dict pat lang) ?cp])"
    using assms(1,3) by (simp add: run_semgrep_on_example_def open_read_def)
  have hl: "entry_highlights E lang ?sp ?cp =
      (Inr hs, [Run_semgrep (single_pattern_to_dict pat lang) ?cp])"
    using assms(1,2,4) by (simp add: entry_highlights_def path_exists_def run)
  have rp: "read_if_exists E ?sp = Inr (PStr pat)"
    using assms(1) find_path_nonempty by (intro read_if_exists_file) simp_all
  have rc: "read_if_exists E ?cp = Inr (PStr code)"
    using assms(2) find_path_nonempty by (intro read_if_exists_file) simp_all
  show ?thesis
    by (simp add: build_entry_def Let_def hl rp rc)
qed

text \<open>
  C8 (as the spec states it, refuted): with \<^verbatim>\<open>python/dots_args.sgrep\<close> and
  \<^verbatim>\<open>python/dots_args.py\<close> present and a matcher returning the one match from line 1,
  column 1 to line 1, column 5, the run succeeds and its document holds nothing under
  \<^verbatim>\<open>python\<close>, \<^verbatim>\<open>Wildcard Matches (...)\<close> and the subcategory name \<^verbatim>\<open>Argument\<close>.
\<close>

theorem python_dots_argument_counterexample:
  "fs (demo_env (0, demo_output, [])) ''examples/python/dots_args.sgrep'' = Some (File ''foo(...)'') \<and>
   fs (demo_env (0, demo_output, [])) ''examples/python/dots_args.py'' = Some (File ''foo(1, 2)'') \<and>
   semgrep (demo_env (0, demo_output, [])) (sgrep_config_default ''foo(...)'' ''python'')
     ''examples/python/dots_args.py'' = (0, demo_output, []) \<and>
   json_loads (demo_env (0, demo_output, [])) demo_output = Inr demo_json \<and>
   \<not> isl (fst (generate_cheatsheet (demo_env (0, demo_output, [])) ''examples'')) \<and>
   doc_lookup (projr (fst (generate_cheatsheet (demo_env (0, demo_output, [])) ''examples'')))
     ''python'' ''Wildcard Matches (...)'' ''Argument'' = None"
  using demo_run_ok by (simp add: demo_lookup demo_kept) (simp add: demo_env_def)

text \<open>
  C8 (amended): if the root lists the directory \<^verbatim>\<open>python\<close>, the files
  \<^verbatim>\<open>python/dots_args.sgrep\<close> and \<^verbatim>\<open>python/dots_args.py\<close> exist, and the matcher run
  on them exits with status 0 and a non-empty output that parses to one result, then
  the document returned holds exactly one entry under \<^verbatim>\<open>python\<close>,
  \<^verbatim>\<open>Wildcard Matches (...)\<close> and the subcategory name \<^verbatim>\<open>Arguments\<close>, with the text of
  both files and exactly one highlight, the start and end of that result; under the
  name \<^verbatim>\<open>Argument\<close> of that feature it holds nothing.
\<close>

theorem python_dots_args_scenario:
  assumes run: "fst (generate_cheatsheet E root_dir) = Inr d"
    and ls: "listdir E root_dir = Inr files" "distinct files" "''python'' \<in> set files"
      "isdir E (os_path_join root_dir [''python''])"
    and sg: "fs E (os_path_join root_dir [''python'', ''dots_args''] @ ''.sgrep'') = Some (File pat)"
    and cd: "fs E (os_path_join root_dir [''python'', ''dots_args''] @ ''.py'') = Some (File code)"
    and mt: "semgrep E (single_pattern_to_dict pat ''python'')
               (os_path_join root_dir [''python'', ''dots_args''] @ ''.py'') = (0, out, err)"
    and js: "out \<noteq> []" "json_loads E out = Inr j" "getitem j ''results'' = Inr (PList [m])"
      "getitem m ''start'' = Inr st" "getitem m ''end'' = Inr en"
  shows "doc_lookup d ''python'' ''Wildcard Matches (...)'' ''Arguments'' =
     Some [[(''pattern'', PStr pat),
            (''pattern_path'',
             PStr (relpath E (os_path_join root_dir [''python'', ''dots_args''] @ ''.sgrep'') root_dir)),
            (''code'', PStr code),
            (''code_path'',
             PStr (relpath E (os_path_join root_dir [''python'', ''dots_args''] @ ''.py'') root_dir)),
            (''highlights'', PList [PDict [(''start'', st), (''end'', en)]])]] \<and>
   doc_lookup d ''python'' ''Wildcard Matches (...)'' ''Argument'' = None"
proof -
  from generate_cheatsheet_Inr [OF run] obtain langs where
    langs: "get_language_directories E root_dir = Inr langs" and
    items: "fst (run_items E root_dir (work_items langs) []) = Inr d"
    by blast
  from langs ls(1) have langs_eq:
    "langs = filter (\<lambda>f. isdir E (os_path_join root_dir [f]) \<and> \<not> f \<in> set EXCLUDE) files"
    by (simp add: get_language_directories_def)
  have dl: "distinct langs" using ls(2) by (simp add: langs_eq)
  have pl: "''python'' \<in> set langs"
    using ls(3,4) by (simp add: langs_eq EXCLUDE_def)
  have k1: "kept_at ''python'' ''Wildcard Matches (...)'' ''Arguments'' (work_items langs) =
      [(''python'', ''dots'', ''args'')]"
    using kept_at_distinct [OF dl pl] kept_at_python_dots_args by simp
  have k2: "kept_at ''python'' ''Wildcard Matches (...)'' ''Argument'' (work_items langs) = []"
    using kept_at_distinct [OF dl pl] kept_at_python_dots_arg by simp
  have sp: "find_path E root_dir ''python'' ''dots'' ''args'' ''sgrep'' =
      os_path_join root_dir [''python'', ''dots_args''] @ ''.sgrep''"
    using find_path_existing [of E root_dir "''python''" "''dots''" "''args''" "''sgrep''"] sg by simp
  have cp: "find_path E root_dir ''python'' ''dots'' ''args'' (lang_dir_to_ext ''python'') =
      os_path_join root_dir [''python'', ''dots_args''] @ ''.py''"
    using find_path_existing [of E root_dir "''python''" "''dots''" "''args''" "''py''"] cd
    by (simp add: lang_dir_to_ext_def)
  have be: "build_entry E root_dir ''python'' ''dots'' ''args'' =
     (Inr [(''pattern'', PStr pat),
           (''pattern_path'',
            PStr (relpath E (os_path_join root_dir [''python'', ''dots_args''] @ ''.sgrep'') root_dir)),
           (''code'', PStr code),
           (''code_path'',
            PStr (relpath E (os_path_join root_dir [''python'', ''dots_args''] @ ''.py'') root_dir)),
           (''highlights'', PList [PDict [(''start'', st), (''end'', en)]])],
      [Run_semgrep (single_pattern_to_dict pat ''python'')
         (os_path_join root_dir [''python'', ''dots_args''] @ ''.py'')])"
    using build_entry_matched [of E root_dir "''python''" "''dots''" "''args''" pat code out err,
        OF _ _ _ parse_one_match [OF js]] sg cd mt
    unfolding sp cp by simp
  from run_items_lookup [OF items, of "''python''" "''Wildcard Matches (...)''" "''Arguments''"]
    run_items_lookup [OF items, of "''python''" "''Wildcard Matches (...)''" "''Argument''"]
  show ?thesis
    by (simp add: k1 k2 the_entry_def be)
qed

theorem python_dots_args_scenario_witness:
  "doc_lookup (projr (fst (generate_cheatsheet (demo_env (0, demo_output, [])) ''examples'')))
     ''python'' ''Wildcard Matches (...)'' ''Arguments'' =
     Some [[(''pattern'', PStr ''foo(...)''),
            (''pattern_path'', PStr ''python/dots_args.sgrep''),
            (''code'', PStr ''foo(1, 2)''),
            (''code_path'', PStr ''python/dots_args.py''),
            (''highlights'',
             PList [PDict [(''start'', PDict [(''line'', PInt 1), (''col'', PInt 1)]),
                           (''end'', PDict [(''line'', PInt 1), (''col'', PInt 5)])]])]]"
proof -
  let ?G = "demo_env (0, demo_output, [])"
  let ?d = "projr (fst (generate_cheatsheet ?G ''examples''))"
  let ?m = "PDict [(''start'', PDict [(''line'', PInt 1), (''col'', PInt 1)]),
                   (''end'', PDict [(''line'', PInt 1), (''col'', PInt 5)])]"
  have run: "fst (generate_cheatsheet ?G ''examples'') = Inr ?d"
    using demo_run_ok by simp
  have ls: "listdir ?G ''examples'' = Inr [''python'', ''ruby'', ''POLYGLOT'']"
      "distinct [''python'', ''ruby'', ''POLYGLOT'']"
      "''python'' \<in> set [''python'', ''ruby'', ''POLYGLOT'']"
      "isdir ?G (os_path_join ''examples'' [''python''])"
    by (simp_all add: demo_env_def isdir_def os_path_join_def join2_def)
  have paths: "os_path_join ''examples'' [''python'', ''dots_args''] = ''examples/python/dots_args''"
    by (simp add: os_path_join_def join2_def)
  have sg: "fs ?G (os_path_join ''examples'' [''python'', ''dots_args''] @ ''.sgrep'') =
      Some (File ''foo(...)'')"
    and cd: "fs ?G (os_path_join ''examples'' [''python'', ''dots_args''] @ ''.py'') =
      Some (File ''foo(1, 2)'')"
    unfolding paths by (simp_all add: demo_env_def)
  have mt: "semgrep ?G (single_pattern_to_dict ''foo(...)'' ''python'')
      (os_path_join ''examples'' [''python'', ''dots_args''] @ ''.py'') = (0, demo_output, [])"
    by (simp add: demo_env_def)
  have js: "demo_output \<noteq> []" "json_loads ?G demo_output = Inr demo_json"
      "getitem demo_json ''results'' = Inr (PList [?m])"
      "getitem ?m ''start'' = Inr (PDict [(''line'', PInt 1), (''col'', PInt 1)])"
      "getitem ?m ''end'' = Inr (PDict [(''line'', PInt 1), (''col'', PInt 5)])"
    by (simp_all add: demo_env_def demo_output_def demo_json_def getitem_def)
  have rel: "relpath ?G ''examples/python/dots_args.sgrep'' ''examples'' = ''python/dots_args.sgrep''"
      "relpath ?G ''examples/python/dots_args.py'' ''examples'' = ''python/dots_args.py''"
    by (simp_all add: demo_env_def)
  from python_dots_args_scenario [OF run ls sg cd mt js] show ?thesis
    unfolding paths using rel by simp
qed

end
